theory Spec2Isabelle
  imports Main
begin

section \<open>JavaScript values and the built-ins the account entity uses\<close>

text \<open>
  The fields of \<^verbatim>\<open>AccountEntity\<close>, the claims of a decoded token and the \<^verbatim>\<open>policy\<close>
  argument are declared \<^verbatim>\<open>string\<close>, but at run time each of them may also hold
  \<^verbatim>\<open>undefined\<close> (a field never assigned, an argument or a claim left out) or \<^verbatim>\<open>null\<close>.
  A \<open>jsval\<close> is such a value. A string is a list of code units; the model covers the
  code units below 256, which is what a \<open>char\<close> holds.
\<close>

datatype jsval = Undefined | Null | Str string

text \<open>An argument of object type: absent (\<^verbatim>\<open>undefined\<close>, \<^verbatim>\<open>null\<close>) or an object.\<close>

datatype 'a jsref = RUndefined | RNull | Obj 'a

text \<open>
  What the code can throw: a property read on \<^verbatim>\<open>undefined\<close> or \<^verbatim>\<open>null\<close> is a
  \<^verbatim>\<open>TypeError\<close>; \<^verbatim>\<open>buildClientInfo\<close> signals a blob it cannot decode.
\<close>

datatype error = TypeError | ClientInfoDecodingError

text \<open>\<^verbatim>\<open>ToString\<close>, as string concatenation and template literals apply it.\<close>

fun toString_js :: "jsval \<Rightarrow> string" where
  "toString_js Undefined = ''undefined''"
| "toString_js Null = ''null''"
| "toString_js (Str s) = s"

text \<open>Truthiness: \<^verbatim>\<open>undefined\<close>, \<^verbatim>\<open>null\<close> and the empty string are falsy.\<close>

fun truthy :: "jsval \<Rightarrow> bool" where
  "truthy Undefined = False"
| "truthy Null = False"
| "truthy (Str s) = (s \<noteq> [])"

text \<open>\<^verbatim>\<open>a || b\<close>\<close>

definition or_js :: "jsval \<Rightarrow> jsval \<Rightarrow> jsval" where
  "or_js a b = (if truthy a then a else b)"

text \<open>An object reference is truthy, \<^verbatim>\<open>undefined\<close> and \<^verbatim>\<open>null\<close> are not.\<close>

fun truthy_ref :: "'a jsref \<Rightarrow> bool" where
  "truthy_ref (Obj x) = True"
| "truthy_ref RUndefined = False"
| "truthy_ref RNull = False"

text \<open>Reading a property: the object, or the \<^verbatim>\<open>TypeError\<close> thrown when there is none.\<close>

fun deref :: "'a jsref \<Rightarrow> error + 'a" where
  "deref (Obj x) = Inr x"
| "deref RUndefined = Inl TypeError"
| "deref RNull = Inl TypeError"

text \<open>
  \<^verbatim>\<open>Array.prototype.join\<close>: an element that is \<^verbatim>\<open>undefined\<close> or \<^verbatim>\<open>null\<close> contributes
  the empty string, any other element its \<^verbatim>\<open>ToString\<close>.
\<close>

fun joinElem :: "jsval \<Rightarrow> string" where
  "joinElem Undefined = []"
| "joinElem Null = []"
| "joinElem (Str s) = s"

fun join_js :: "string \<Rightarrow> jsval list \<Rightarrow> string" where
  "join_js sep [] = []"
| "join_js sep [x] = joinElem x"
| "join_js sep (x # y # ys) = joinElem x @ sep @ join_js sep (y # ys)"

text \<open>
  \<^verbatim>\<open>String.prototype.toLowerCase\<close>. On code units below 256 the Unicode lower-case
  mapping is unit by unit: A to Z (65 to 90) and the Latin-1 capitals (192 to 222, the
  multiplication sign 215 apart) move up by 32, every other unit stays.
\<close>

definition lowerChar :: "char \<Rightarrow> char" where
  "lowerChar c =
     (let n = (of_char c :: nat)
      in if (65 \<le> n \<and> n \<le> 90) \<or> (192 \<le> n \<and> n \<le> 222 \<and> n \<noteq> 215)
         then char_of (n + 32) else c)"

definition toLowerCase :: "string \<Rightarrow> string" where
  "toLowerCase s = map lowerChar s"

text \<open>
  \<^verbatim>\<open>Array.prototype.includes\<close> on an array of strings: strict comparison, so
  \<^verbatim>\<open>undefined\<close> and \<^verbatim>\<open>null\<close> are never found.
\<close>

fun includes_js :: "string list \<Rightarrow> jsval \<Rightarrow> bool" where
  "includes_js xs (Str s) = (s \<in> set xs)"
| "includes_js xs Undefined = False"
| "includes_js xs Null = False"

section \<open>Constants and collaborators\<close>

text \<open>
  \<^verbatim>\<open>utils/Constants\<close> is imported by the entity and is not part of the sources at hand:
  the separators, the account-type strings, the cache-type numbers, the alias list and the
  preferred environment are parameters of every function that reads them.
  \<open>CacheType_ADFS\<close> stands for \<^verbatim>\<open>CacheType.ADFS\<close>, and so on.
\<close>

record Constants =
  CACHE_KEY_SEPARATOR :: string
  CLIENT_INFO_SEPARATOR :: string
  ADFS_ACCOUNT_TYPE :: string
  MSAV1_ACCOUNT_TYPE :: string
  MSSTS_ACCOUNT_TYPE :: string
  GENERIC_ACCOUNT_TYPE :: string
  CacheType_ADFS :: int
  CacheType_MSA :: int
  CacheType_MSSTS :: int
  CacheType_GENERIC :: int
  EnvironmentAliases :: "string list"
  PreferredCacheEnvironment :: string

text \<open>
  Modelled from the spec: \<^verbatim>\<open>StringUtils.isEmpty\<close> is imported from \<^verbatim>\<open>utils/StringUtils\<close>,
  which is not among the sources. The spec reads it as "the claim is empty or absent".
\<close>

fun isEmpty :: "jsval \<Rightarrow> bool" where
  "isEmpty Undefined = True"
| "isEmpty Null = True"
| "isEmpty (Str s) = (s = [])"

text \<open>The object \<^verbatim>\<open>buildClientInfo\<close> returns.\<close>

record ClientInfo =
  uid :: jsval
  utid :: jsval

text \<open>\<^verbatim>\<open>authority.canonicalAuthorityUrlComponents.HostNameAndPort\<close>\<close>

record IUri =
  HostNameAndPort :: jsval

record Authority =
  canonicalAuthorityUrlComponents :: IUri

text \<open>The claims of a decoded identity token that the entity reads.\<close>

record IdTokenClaims =
  tid :: jsval
  oid :: jsval
  sid :: jsval
  preferred_username :: jsval
  name :: jsval
  sub :: jsval
  upn :: jsval

record IdToken =
  claims :: IdTokenClaims

section \<open>The account entity\<close>

record AccountInfo =
  homeAccountId :: jsval
  environment :: jsval
  tenantId :: jsval
  username :: jsval

record AccountEntity =
  homeAccountId :: jsval
  environment :: jsval
  realm :: jsval
  localAccountId :: jsval
  username :: jsval
  authorityType :: jsval
  name :: jsval
  clientInfo :: jsval
  lastModificationTime :: jsval
  lastModificationApp :: jsval

text \<open>\<^verbatim>\<open>new AccountEntity()\<close>: the class has no initialisers, every field reads \<^verbatim>\<open>undefined\<close>.\<close>

definition newAccountEntity :: AccountEntity where
  "newAccountEntity =
     \<lparr> AccountEntity.homeAccountId = Undefined, AccountEntity.environment = Undefined,
       realm = Undefined, localAccountId = Undefined, AccountEntity.username = Undefined,
       authorityType = Undefined, AccountEntity.name = Undefined, clientInfo = Undefined,
       lastModificationTime = Undefined, lastModificationApp = Undefined \<rparr>"

definition generateAccountId :: "Constants \<Rightarrow> AccountEntity \<Rightarrow> string" where
  "generateAccountId K this =
     (let accountId = [AccountEntity.homeAccountId this, AccountEntity.environment this]
      in toLowerCase (join_js (CACHE_KEY_SEPARATOR K) accountId))"

definition generateAccountCacheKey :: "Constants \<Rightarrow> AccountInfo \<Rightarrow> string" where
  "generateAccountCacheKey K accountInterface =
     (let accountKey =
            [AccountInfo.homeAccountId accountInterface,
             or_js (AccountInfo.environment accountInterface) (Str []),
             or_js (tenantId accountInterface) (Str [])]
      in toLowerCase (join_js (CACHE_KEY_SEPARATOR K) accountKey))"

definition generateAccountKey :: "Constants \<Rightarrow> AccountEntity \<Rightarrow> string" where
  "generateAccountKey K this =
     generateAccountCacheKey K
       \<lparr> AccountInfo.homeAccountId = AccountEntity.homeAccountId this,
         AccountInfo.environment = AccountEntity.environment this,
         tenantId = realm this,
         AccountInfo.username = AccountEntity.username this \<rparr>"

text \<open>
  \<^verbatim>\<open>generateType\<close> returns a number or \<^verbatim>\<open>null\<close> (\<open>None\<close>) and may write to the console:
  the second component is what it logged. The \<^verbatim>\<open>switch\<close> compares with \<^verbatim>\<open>===\<close>, case
  by case in the order of the source.
\<close>

definition generateType :: "Constants \<Rightarrow> AccountEntity \<Rightarrow> int option \<times> string list" where
  "generateType K this =
     (if authorityType this = Str (ADFS_ACCOUNT_TYPE K) then (Some (CacheType_ADFS K), [])
      else if authorityType this = Str (MSAV1_ACCOUNT_TYPE K) then (Some (CacheType_MSA K), [])
      else if authorityType this = Str (MSSTS_ACCOUNT_TYPE K) then (Some (CacheType_MSSTS K), [])
      else if authorityType this = Str (GENERIC_ACCOUNT_TYPE K) then (Some (CacheType_GENERIC K), [])
      else (None, [''Unexpected account type'']))"

text \<open>
  \<^verbatim>\<open>createAccount\<close>. \<^verbatim>\<open>buildClientInfo\<close> and the crypto object it is handed are
  collaborators: \<open>buildClientInfo\<close> is a parameter that returns the decoded object or the
  error it throws, which \<^verbatim>\<open>createAccount\<close> does not catch. The statements run in the order
  of the source; reading a property of an absent \<^verbatim>\<open>authority\<close> or \<^verbatim>\<open>idToken\<close> throws.
  The read \<^verbatim>\<open>idToken.claims.tid\<close> comes before the test \<^verbatim>\<open>if (idToken)\<close>.
\<close>

definition createAccount ::
  "Constants \<Rightarrow> (jsval \<Rightarrow> 'c \<Rightarrow> error + ClientInfo) \<Rightarrow>
   jsval \<Rightarrow> Authority jsref \<Rightarrow> IdToken jsref \<Rightarrow> jsval \<Rightarrow> 'c \<Rightarrow> error + AccountEntity" where
  "createAccount K buildClientInfo clientInfo' authority idToken policy crypto =
     (let account = newAccountEntity;
          account = (account\<lparr>authorityType := Str (MSSTS_ACCOUNT_TYPE K)\<rparr>);
          account = (account\<lparr>clientInfo := clientInfo'\<rparr>)
      in case buildClientInfo clientInfo' crypto of
           Inl e \<Rightarrow> Inl e
         | Inr clientInfoObj \<Rightarrow>
            (let homeAccountId' =
                   toString_js (uid clientInfoObj) @ CLIENT_INFO_SEPARATOR K
                     @ toString_js (utid clientInfoObj);
                 account = (account\<lparr>AccountEntity.homeAccountId :=
                   (if policy \<noteq> Null
                    then Str (homeAccountId' @ CACHE_KEY_SEPARATOR K @ toString_js policy)
                    else Str homeAccountId')\<rparr>)
             in case deref authority of
                  Inl e \<Rightarrow> Inl e
                | Inr auth \<Rightarrow>
                   (let reqEnvironment = HostNameAndPort (canonicalAuthorityUrlComponents auth);
                        account = (account\<lparr>AccountEntity.environment :=
                          (if includes_js (EnvironmentAliases K) reqEnvironment
                           then Str (PreferredCacheEnvironment K)
                           else reqEnvironment)\<rparr>)
                    in case deref idToken of
                         Inl e \<Rightarrow> Inl e
                       | Inr tok \<Rightarrow>
                          (let account = (account\<lparr>realm := tid (claims tok)\<rparr>)
                           in if truthy_ref idToken
                              then
                                let localAccountId' =
                                      (if \<not> isEmpty (oid (claims tok))
                                       then oid (claims tok)
                                       else sid (claims tok));
                                    account = (account\<lparr>localAccountId := localAccountId'\<rparr>);
                                    account = (account\<lparr>AccountEntity.username :=
                                                preferred_username (claims tok)\<rparr>);
                                    account = (account\<lparr>AccountEntity.name :=
                                                IdTokenClaims.name (claims tok)\<rparr>)
                                in Inr account
                              else Inr account))))"

text \<open>\<^verbatim>\<open>createADFSAccount\<close>: the token is read first, then the authority.\<close>

definition createADFSAccount ::
  "Constants \<Rightarrow> Authority jsref \<Rightarrow> IdToken jsref \<Rightarrow> error + AccountEntity" where
  "createADFSAccount K authority idToken =
     (let account = newAccountEntity;
          account = (account\<lparr>authorityType := Str (ADFS_ACCOUNT_TYPE K)\<rparr>)
      in case deref idToken of
           Inl e \<Rightarrow> Inl e
         | Inr tok \<Rightarrow>
            (let account = (account\<lparr>AccountEntity.homeAccountId := sub (claims tok)\<rparr>)
             in case deref authority of
                  Inl e \<Rightarrow> Inl e
                | Inr auth \<Rightarrow>
                   (let account = (account\<lparr>AccountEntity.environment :=
                          HostNameAndPort (canonicalAuthorityUrlComponents auth)\<rparr>);
                        account = (account\<lparr>AccountEntity.username := upn (claims tok)\<rparr>)
                    in Inr account)))"

section \<open>Sample inputs\<close>

text \<open>
  Modelled from the spec: an instance of the constants of \<^verbatim>\<open>utils/Constants\<close>, with the
  values the spec's examples use: \<open>'':''\<close> between uid and utid, \<open>''-''\<close> in cache keys, and
  \<open>''login.windows.net''\<close> an alias of the preferred \<open>''login.microsoftonline.com''\<close>. The
  account-type strings and cache-type numbers are sample values, pairwise distinct.
\<close>

definition sampleConstants :: Constants where
  "sampleConstants =
     \<lparr> CACHE_KEY_SEPARATOR = ''-'', CLIENT_INFO_SEPARATOR = '':'',
       ADFS_ACCOUNT_TYPE = ''ADFS'', MSAV1_ACCOUNT_TYPE = ''MSA'',
       MSSTS_ACCOUNT_TYPE = ''MSSTS'', GENERIC_ACCOUNT_TYPE = ''Generic'',
       CacheType_ADFS = 1001, CacheType_MSA = 1002, CacheType_MSSTS = 1003,
       CacheType_GENERIC = 1004,
       EnvironmentAliases = [''login.microsoftonline.com'', ''login.windows.net''],
       PreferredCacheEnvironment = ''login.microsoftonline.com'' \<rparr>"

text \<open>
  A stand-in for \<^verbatim>\<open>buildClientInfo\<close>: it signals a decode failure on an empty or absent
  blob and decodes every other blob to the given object.
\<close>

definition sampleBuildClientInfo :: "ClientInfo \<Rightarrow> jsval \<Rightarrow> unit \<Rightarrow> error + ClientInfo" where
  "sampleBuildClientInfo obj rawClientInfo crypto =
     (if isEmpty rawClientInfo then Inl ClientInfoDecodingError else Inr obj)"

definition sampleClientInfo :: ClientInfo where
  "sampleClientInfo = \<lparr> uid = Str ''U1'', utid = Str ''T1'' \<rparr>"

definition sampleAuthority :: "string \<Rightarrow> Authority" where
  "sampleAuthority h = \<lparr> canonicalAuthorityUrlComponents = \<lparr> HostNameAndPort = Str h \<rparr> \<rparr>"

text \<open>A decoded token with the given object and session identifiers.\<close>

definition sampleToken :: "jsval \<Rightarrow> jsval \<Rightarrow> IdToken" where
  "sampleToken oidClaim sidClaim =
     \<lparr> claims = \<lparr> tid = Str ''T1'', oid = oidClaim, sid = sidClaim,
                  preferred_username = Str ''user@contoso.com'',
                  IdTokenClaims.name = Str ''User One'',
                  sub = Str ''subject-1'', upn = Str ''user@contoso.com'' \<rparr> \<rparr>"

text \<open>A decoded token every claim of which is the empty string.\<close>

definition emptyToken :: IdToken where
  "emptyToken =
     \<lparr> claims = \<lparr> tid = Str [], oid = Str [], sid = Str [], preferred_username = Str [],
                  IdTokenClaims.name = Str [], sub = Str [], upn = Str [] \<rparr> \<rparr>"

section \<open>Auxiliary facts\<close>

lemma toLowerCase_append: "toLowerCase (a @ b) = toLowerCase a @ toLowerCase b"
  by (simp add: toLowerCase_def)

lemmas lower_eval = toLowerCase_def lowerChar_def char_of_def bit_Suc_0_iff

lemmas sample_defs =
  sampleConstants_def sampleBuildClientInfo_def sampleClientInfo_def sampleAuthority_def
  sampleToken_def emptyToken_def

text \<open>
  With a blob that decodes, an authority and a token, \<^verbatim>\<open>createAccount\<close> returns this
  record.
\<close>

lemma createAccount_present:
  assumes "buildClientInfo ci crypto = Inr cio"
  shows "createAccount K buildClientInfo ci (Obj a) (Obj t) policy crypto =
    Inr \<lparr> AccountEntity.homeAccountId =
            (if policy \<noteq> Null
             then Str (toString_js (uid cio) @ CLIENT_INFO_SEPARATOR K @ toString_js (utid cio)
                        @ CACHE_KEY_SEPARATOR K @ toString_js policy)
             else Str (toString_js (uid cio) @ CLIENT_INFO_SEPARATOR K @ toString_js (utid cio))),
          AccountEntity.environment =
            (if includes_js (EnvironmentAliases K)
                  (HostNameAndPort (canonicalAuthorityUrlComponents a))
             then Str (PreferredCacheEnvironment K)
             else HostNameAndPort (canonicalAuthorityUrlComponents a)),
          realm = tid (claims t),
          localAccountId = (if isEmpty (oid (claims t)) then sid (claims t) else oid (claims t)),
          AccountEntity.username = preferred_username (claims t),
          authorityType = Str (MSSTS_ACCOUNT_TYPE K),
          AccountEntity.name = IdTokenClaims.name (claims t),
          clientInfo = ci,
          lastModificationTime = Undefined,
          lastModificationApp = Undefined \<rparr>"
  using assms by (simp add: createAccount_def newAccountEntity_def Let_def)

lemma createADFSAccount_present:
  "createADFSAccount K (Obj a) (Obj t) =
    Inr \<lparr> AccountEntity.homeAccountId = sub (claims t),
          AccountEntity.environment = HostNameAndPort (canonicalAuthorityUrlComponents a),
          realm = Undefined, localAccountId = Undefined,
          AccountEntity.username = upn (claims t),
          authorityType = Str (ADFS_ACCOUNT_TYPE K),
          AccountEntity.name = Undefined, clientInfo = Undefined,
          lastModificationTime = Undefined, lastModificationApp = Undefined \<rparr>"
  by (simp add: createADFSAccount_def newAccountEntity_def Let_def)

text \<open>The constructors return a record only when every object they read is there.\<close>

lemma createAccount_Inr_iff:
  "(\<exists>r. createAccount K buildClientInfo ci authority idToken policy crypto = Inr r) \<longleftrightarrow>
   (\<exists>cio a t. buildClientInfo ci crypto = Inr cio \<and> authority = Obj a \<and> idToken = Obj t)"
proof (cases "buildClientInfo ci crypto")
  case (Inl e)
  then show ?thesis by (simp add: createAccount_def Let_def)
next
  case (Inr cio)
  show ?thesis
  proof (cases authority)
    case (Obj a)
    show ?thesis
    proof (cases idToken)
      case (Obj t)
      with \<open>authority = Obj a\<close> Inr show ?thesis by (simp add: createAccount_present)
    qed (simp_all add: createAccount_def Let_def Inr Obj)
  qed (simp_all add: createAccount_def Let_def Inr)
qed

lemma createADFSAccount_Inr_iff:
  "(\<exists>r. createADFSAccount K authority idToken = Inr r) \<longleftrightarrow>
   (\<exists>a t. authority = Obj a \<and> idToken = Obj t)"
  by (cases authority; cases idToken) (simp_all add: createADFSAccount_def Let_def)

section \<open>Key derivation\<close>

text \<open>
  C1. For all strings \<open>h\<close>, \<open>e\<close>, \<open>r\<close>, the key \<^verbatim>\<open>generateAccountCacheKey\<close> produces for
  \<^verbatim>\<open>{homeAccountId: h, environment: e, tenantId: r}\<close> is the lower case of \<open>h\<close>, \<open>e\<close>, \<open>r\<close>
  joined with the cache-key separator. When the tenant id is absent (\<^verbatim>\<open>undefined\<close>,
  \<^verbatim>\<open>null\<close>) or the empty string, the key still ends in the separator (lower-cased with
  the rest of the key), followed by the empty segment.
\<close>

theorem generateAccountCacheKey_lower_join:
  "generateAccountCacheKey K
     \<lparr> AccountInfo.homeAccountId = Str h, AccountInfo.environment = Str e,
       tenantId = Str r, AccountInfo.username = u \<rparr>
     = toLowerCase (h @ CACHE_KEY_SEPARATOR K @ e @ CACHE_KEY_SEPARATOR K @ r)
   \<and> generateAccountCacheKey K
        \<lparr> AccountInfo.homeAccountId = Str h, AccountInfo.environment = Str e,
          tenantId = Undefined, AccountInfo.username = u \<rparr>
        = toLowerCase (h @ CACHE_KEY_SEPARATOR K @ e) @ toLowerCase (CACHE_KEY_SEPARATOR K)
   \<and> generateAccountCacheKey K
        \<lparr> AccountInfo.homeAccountId = Str h, AccountInfo.environment = Str e,
          tenantId = Null, AccountInfo.username = u \<rparr>
        = toLowerCase (h @ CACHE_KEY_SEPARATOR K @ e) @ toLowerCase (CACHE_KEY_SEPARATOR K)
   \<and> generateAccountCacheKey K
        \<lparr> AccountInfo.homeAccountId = Str h, AccountInfo.environment = Str e,
          tenantId = Str [], AccountInfo.username = u \<rparr>
        = toLowerCase (h @ CACHE_KEY_SEPARATOR K @ e) @ toLowerCase (CACHE_KEY_SEPARATOR K)"
  by (simp add: generateAccountCacheKey_def or_js_def toLowerCase_append)

text \<open>
  C2. The account cache key does not depend on the username: two \<^verbatim>\<open>AccountInfo\<close> inputs
  that agree on \<^verbatim>\<open>homeAccountId\<close>, \<^verbatim>\<open>environment\<close> and \<^verbatim>\<open>tenantId\<close> get the same key from
  \<^verbatim>\<open>generateAccountCacheKey\<close> whatever their usernames, and two entities that differ
  only in \<^verbatim>\<open>username\<close> get the same key from \<^verbatim>\<open>generateAccountKey\<close>.
\<close>

theorem account_key_ignores_username:
  "(AccountInfo.homeAccountId a = AccountInfo.homeAccountId b \<and>
    AccountInfo.environment a = AccountInfo.environment b \<and>
    tenantId a = tenantId b \<longrightarrow>
      generateAccountCacheKey K a = generateAccountCacheKey K b)
   \<and> generateAccountKey K (x\<lparr>AccountEntity.username := u\<rparr>)
       = generateAccountKey K (x\<lparr>AccountEntity.username := v\<rparr>)"
  by (simp add: generateAccountCacheKey_def generateAccountKey_def)

theorem account_key_ignores_username_witness:
  "Str ''alice'' \<noteq> Str ''bob'' \<and>
   generateAccountCacheKey sampleConstants
     \<lparr> AccountInfo.homeAccountId = Str ''U1:T1'', AccountInfo.environment = Str ''login.windows.net'',
       tenantId = Str ''T1'', AccountInfo.username = Str ''alice'' \<rparr>
   = generateAccountCacheKey sampleConstants
     \<lparr> AccountInfo.homeAccountId = Str ''U1:T1'', AccountInfo.environment = Str ''login.windows.net'',
       tenantId = Str ''T1'', AccountInfo.username = Str ''bob'' \<rparr>"
  using account_key_ignores_username
    [of "\<lparr> AccountInfo.homeAccountId = Str ''U1:T1'', AccountInfo.environment = Str ''login.windows.net'',
            tenantId = Str ''T1'', AccountInfo.username = Str ''alice'' \<rparr>"
        "\<lparr> AccountInfo.homeAccountId = Str ''U1:T1'', AccountInfo.environment = Str ''login.windows.net'',
            tenantId = Str ''T1'', AccountInfo.username = Str ''bob'' \<rparr>"
        sampleConstants]
  by simp

text \<open>
  C3. For all strings \<open>h\<close>, \<open>e\<close>, \<^verbatim>\<open>generateAccountId\<close> on a record with
  \<^verbatim>\<open>homeAccountId = h\<close> and \<^verbatim>\<open>environment = e\<close> returns the lower case of \<open>h\<close>, the
  cache-key separator and \<open>e\<close>; and it is case-insensitive: case variants \<open>H\<close>, \<open>E\<close> of
  \<open>h\<close>, \<open>e\<close> (strings with the same lower case) give the same account id.
\<close>

theorem generateAccountId_lower_case_insensitive:
  "generateAccountId K
     (x\<lparr>AccountEntity.homeAccountId := Str h, AccountEntity.environment := Str e\<rparr>)
     = toLowerCase (h @ CACHE_KEY_SEPARATOR K @ e)
   \<and> (toLowerCase H = toLowerCase h \<and> toLowerCase E = toLowerCase e \<longrightarrow>
        generateAccountId K
          (x\<lparr>AccountEntity.homeAccountId := Str H, AccountEntity.environment := Str E\<rparr>)
        = generateAccountId K
          (y\<lparr>AccountEntity.homeAccountId := Str h, AccountEntity.environment := Str e\<rparr>))"
  by (simp add: generateAccountId_def toLowerCase_append)

theorem generateAccountId_lower_case_insensitive_witness:
  "toLowerCase ''U1:Tenant'' = toLowerCase ''u1:TENANT'' \<and>
   toLowerCase ''Login.Windows.NET'' = toLowerCase ''login.windows.net'' \<and>
   generateAccountId sampleConstants
     (newAccountEntity\<lparr>AccountEntity.homeAccountId := Str ''U1:Tenant'',
                        AccountEntity.environment := Str ''Login.Windows.NET''\<rparr>)
   = generateAccountId sampleConstants
     (newAccountEntity\<lparr>AccountEntity.homeAccountId := Str ''u1:TENANT'',
                        AccountEntity.environment := Str ''login.windows.net''\<rparr>)"
proof -
  have h: "toLowerCase ''U1:Tenant'' = toLowerCase ''u1:TENANT''"
    by (simp add: lower_eval)
  have e: "toLowerCase ''Login.Windows.NET'' = toLowerCase ''login.windows.net''"
    by (simp add: lower_eval)
  from h e generateAccountId_lower_case_insensitive
    [where K = sampleConstants and x = newAccountEntity and y = newAccountEntity
       and h = "''u1:TENANT''" and e = "''login.windows.net''"
       and H = "''U1:Tenant''" and E = "''Login.Windows.NET''"]
  show ?thesis by blast
qed

text \<open>
  C9. \<^verbatim>\<open>generateType\<close> is total. With the four account-type strings pairwise distinct,
  each of them maps to its own cache-type number and nothing is logged; every other
  \<^verbatim>\<open>authorityType\<close> value yields \<^verbatim>\<open>null\<close> together with the console message, and no
  exception. The result is \<^verbatim>\<open>null\<close> exactly for the values that are not recognised.
\<close>

theorem generateType_total:
  assumes "distinct [ADFS_ACCOUNT_TYPE K, MSAV1_ACCOUNT_TYPE K, MSSTS_ACCOUNT_TYPE K,
                     GENERIC_ACCOUNT_TYPE K]"
  shows "generateType K (x\<lparr>authorityType := Str (ADFS_ACCOUNT_TYPE K)\<rparr>)
           = (Some (CacheType_ADFS K), [])
       \<and> generateType K (x\<lparr>authorityType := Str (MSAV1_ACCOUNT_TYPE K)\<rparr>)
           = (Some (CacheType_MSA K), [])
       \<and> generateType K (x\<lparr>authorityType := Str (MSSTS_ACCOUNT_TYPE K)\<rparr>)
           = (Some (CacheType_MSSTS K), [])
       \<and> generateType K (x\<lparr>authorityType := Str (GENERIC_ACCOUNT_TYPE K)\<rparr>)
           = (Some (CacheType_GENERIC K), [])
       \<and> (t \<notin> {Str (ADFS_ACCOUNT_TYPE K), Str (MSAV1_ACCOUNT_TYPE K),
                Str (MSSTS_ACCOUNT_TYPE K), Str (GENERIC_ACCOUNT_TYPE K)} \<longrightarrow>
            generateType K (x\<lparr>authorityType := t\<rparr>) = (None, [''Unexpected account type'']))
       \<and> (fst (generateType K x) = None) =
            (authorityType x \<notin> {Str (ADFS_ACCOUNT_TYPE K), Str (MSAV1_ACCOUNT_TYPE K),
                Str (MSSTS_ACCOUNT_TYPE K), Str (GENERIC_ACCOUNT_TYPE K)})"
  using assms by (auto simp add: generateType_def)

theorem generateType_total_witness:
  "distinct [ADFS_ACCOUNT_TYPE sampleConstants, MSAV1_ACCOUNT_TYPE sampleConstants,
             MSSTS_ACCOUNT_TYPE sampleConstants, GENERIC_ACCOUNT_TYPE sampleConstants]
   \<and> generateType sampleConstants (newAccountEntity\<lparr>authorityType := Str ''ADFS''\<rparr>)
       = (Some 1001, [])
   \<and> generateType sampleConstants (newAccountEntity\<lparr>authorityType := Str ''MSA''\<rparr>)
       = (Some 1002, [])
   \<and> generateType sampleConstants (newAccountEntity\<lparr>authorityType := Str ''MSSTS''\<rparr>)
       = (Some 1003, [])
   \<and> generateType sampleConstants (newAccountEntity\<lparr>authorityType := Str ''Generic''\<rparr>)
       = (Some 1004, [])
   \<and> generateType sampleConstants (newAccountEntity\<lparr>authorityType := Str ''B2C''\<rparr>)
       = (None, [''Unexpected account type''])
   \<and> generateType sampleConstants (newAccountEntity\<lparr>authorityType := Undefined\<rparr>)
       = (None, [''Unexpected account type''])"
proof -
  have d: "distinct [ADFS_ACCOUNT_TYPE sampleConstants, MSAV1_ACCOUNT_TYPE sampleConstants,
             MSSTS_ACCOUNT_TYPE sampleConstants, GENERIC_ACCOUNT_TYPE sampleConstants]"
    by (simp add: sampleConstants_def)
  from d generateType_total [OF d, of newAccountEntity "Str ''B2C''"]
       generateType_total [OF d, of newAccountEntity Undefined]
  show ?thesis by (simp add: sampleConstants_def)
qed

section \<open>Account construction\<close>

text \<open>
  C4, as stated, fails: neither constructor checks its inputs. With an empty authority
  host and a token whose claims are empty strings, \<^verbatim>\<open>createADFSAccount\<close> returns a record
  with empty \<^verbatim>\<open>homeAccountId\<close> and \<^verbatim>\<open>environment\<close>, and \<^verbatim>\<open>createAccount\<close> returns a
  record of the tenant-scoped type MSSTS with empty \<^verbatim>\<open>environment\<close> and empty \<^verbatim>\<open>realm\<close>.
\<close>

theorem constructed_fields_may_be_empty:
  "createADFSAccount sampleConstants (Obj (sampleAuthority [])) (Obj emptyToken)
     = Inr \<lparr> AccountEntity.homeAccountId = Str [], AccountEntity.environment = Str [],
             realm = Undefined, localAccountId = Undefined, AccountEntity.username = Str [],
             authorityType = Str ''ADFS'', AccountEntity.name = Undefined,
             clientInfo = Undefined, lastModificationTime = Undefined,
             lastModificationApp = Undefined \<rparr>
   \<and> createAccount sampleConstants (sampleBuildClientInfo sampleClientInfo) (Str ''blob'')
       (Obj (sampleAuthority [])) (Obj emptyToken) Null ()
     = Inr \<lparr> AccountEntity.homeAccountId = Str ''U1:T1'', AccountEntity.environment = Str [],
             realm = Str [], localAccountId = Str [], AccountEntity.username = Str [],
             authorityType = Str ''MSSTS'', AccountEntity.name = Str [],
             clientInfo = Str ''blob'', lastModificationTime = Undefined,
             lastModificationApp = Undefined \<rparr>"
  by (simp add: createADFSAccount_present createAccount_present sample_defs)

text \<open>
  C4, amended. Each constructor on its own, and each field from the inputs it is built
  from. \<^verbatim>\<open>createAccount\<close>, whenever the blob decodes: \<^verbatim>\<open>realm\<close> is the token's \<^verbatim>\<open>tid\<close>
  claim as it stands (so possibly empty); \<^verbatim>\<open>homeAccountId\<close> is non-empty when the
  client-info separator is; \<^verbatim>\<open>environment\<close> is non-empty when the authority host and the
  preferred environment are. \<^verbatim>\<open>createADFSAccount\<close>, always: \<^verbatim>\<open>realm\<close> is unset;
  \<^verbatim>\<open>homeAccountId\<close> is non-empty when the \<^verbatim>\<open>sub\<close> claim is; \<^verbatim>\<open>environment\<close> is non-empty
  when the authority host is.
\<close>

theorem constructed_fields_nonempty_from_inputs:
  "(buildClientInfo ci crypto = Inr cio \<longrightarrow>
      (\<exists>r. createAccount K buildClientInfo ci (Obj a) (Obj t) policy crypto = Inr r
         \<and> realm r = tid (claims t)
         \<and> (CLIENT_INFO_SEPARATOR K \<noteq> [] \<longrightarrow> \<not> isEmpty (AccountEntity.homeAccountId r))
         \<and> (\<not> isEmpty (HostNameAndPort (canonicalAuthorityUrlComponents a))
              \<and> PreferredCacheEnvironment K \<noteq> [] \<longrightarrow>
              \<not> isEmpty (AccountEntity.environment r))))
   \<and> (\<exists>r. createADFSAccount K' (Obj a') (Obj t') = Inr r
         \<and> realm r = Undefined
         \<and> (\<not> isEmpty (sub (claims t')) \<longrightarrow> \<not> isEmpty (AccountEntity.homeAccountId r))
         \<and> (\<not> isEmpty (HostNameAndPort (canonicalAuthorityUrlComponents a')) \<longrightarrow>
              \<not> isEmpty (AccountEntity.environment r)))"
  by (simp add: createAccount_present createADFSAccount_present)

theorem constructed_fields_nonempty_from_inputs_witness:
  "sampleBuildClientInfo sampleClientInfo (Str ''blob'') () = Inr sampleClientInfo
   \<and> CLIENT_INFO_SEPARATOR sampleConstants \<noteq> []
   \<and> \<not> isEmpty (HostNameAndPort (canonicalAuthorityUrlComponents
                    (sampleAuthority ''login.windows.net'')))
   \<and> PreferredCacheEnvironment sampleConstants \<noteq> []
   \<and> (\<exists>r. createAccount sampleConstants (sampleBuildClientInfo sampleClientInfo) (Str ''blob'')
            (Obj (sampleAuthority ''login.windows.net'')) (Obj emptyToken) Null () = Inr r
          \<and> realm r = Str []
          \<and> \<not> isEmpty (AccountEntity.homeAccountId r)
          \<and> \<not> isEmpty (AccountEntity.environment r))
   \<and> \<not> isEmpty (sub (claims (sampleToken (Str ''O1'') (Str ''S1''))))
   \<and> \<not> isEmpty (HostNameAndPort (canonicalAuthorityUrlComponents
                    (sampleAuthority ''adfs.contoso.com'')))
   \<and> (\<exists>r. createADFSAccount sampleConstants (Obj (sampleAuthority ''adfs.contoso.com''))
            (Obj (sampleToken (Str ''O1'') (Str ''S1''))) = Inr r
          \<and> realm r = Undefined
          \<and> \<not> isEmpty (AccountEntity.homeAccountId r)
          \<and> \<not> isEmpty (AccountEntity.environment r))"
proof -
  have 1: "sampleBuildClientInfo sampleClientInfo (Str ''blob'') () = Inr sampleClientInfo"
    by (simp add: sampleBuildClientInfo_def)
  have 2: "CLIENT_INFO_SEPARATOR sampleConstants \<noteq> []"
    by (simp add: sampleConstants_def)
  have 3: "\<not> isEmpty (HostNameAndPort (canonicalAuthorityUrlComponents
                    (sampleAuthority ''login.windows.net'')))"
    by (simp add: sampleAuthority_def)
  have 4: "PreferredCacheEnvironment sampleConstants \<noteq> []"
    by (simp add: sampleConstants_def)
  have 5: "\<not> isEmpty (sub (claims (sampleToken (Str ''O1'') (Str ''S1''))))"
    by (simp add: sampleToken_def)
  have 6: "\<not> isEmpty (HostNameAndPort (canonicalAuthorityUrlComponents
                    (sampleAuthority ''adfs.contoso.com'')))"
    by (simp add: sampleAuthority_def)
  have 7: "tid (claims emptyToken) = Str []"
    by (simp add: emptyToken_def)
  from constructed_fields_nonempty_from_inputs
         [where buildClientInfo = "sampleBuildClientInfo sampleClientInfo"
            and ci = "Str ''blob''" and crypto = "()" and cio = sampleClientInfo
            and K = sampleConstants and a = "sampleAuthority ''login.windows.net''"
            and t = emptyToken and policy = Null
            and K' = sampleConstants and a' = "sampleAuthority ''adfs.contoso.com''"
            and t' = "sampleToken (Str ''O1'') (Str ''S1'')"]
       1 2 3 4 5 6 7
  show ?thesis by simp
qed

text \<open>
  C5 does not hold of the code. \<^verbatim>\<open>createAccount\<close> reads \<^verbatim>\<open>idToken.claims.tid\<close> before
  it tests \<^verbatim>\<open>if (idToken)\<close>: with an absent token (\<^verbatim>\<open>undefined\<close> or \<^verbatim>\<open>null\<close>) it never
  returns a record, and with a blob that decodes and an authority it throws a
  \<^verbatim>\<open>TypeError\<close>.
\<close>

theorem createAccount_absent_idToken_throws:
  "isl (createAccount K buildClientInfo ci authority RUndefined policy crypto)
   \<and> isl (createAccount K buildClientInfo ci authority RNull policy crypto)
   \<and> createAccount sampleConstants (sampleBuildClientInfo sampleClientInfo) (Str ''blob'')
       (Obj (sampleAuthority ''login.windows.net'')) RUndefined Null () = Inl TypeError"
  by (cases authority)
     (auto simp: createAccount_def Let_def sample_defs split: sum.splits)

text \<open>
  C6. Alias normalisation is applied on the modern-authority path only: when the
  authority host is in the alias list, \<^verbatim>\<open>createAccount\<close> sets \<^verbatim>\<open>environment\<close> to the
  preferred host, and \<^verbatim>\<open>createADFSAccount\<close> with the same authority sets it to the host
  unchanged. The instance after it is the spec's example, \<open>''login.windows.net''\<close>.
\<close>

theorem environment_alias_only_modern:
  assumes "buildClientInfo ci crypto = Inr cio"
    and "HostNameAndPort (canonicalAuthorityUrlComponents a) = Str h"
    and "h \<in> set (EnvironmentAliases K)"
  shows "(\<exists>r. createAccount K buildClientInfo ci (Obj a) (Obj t) policy crypto = Inr r
            \<and> AccountEntity.environment r = Str (PreferredCacheEnvironment K))
       \<and> (\<exists>r. createADFSAccount K (Obj a) (Obj t) = Inr r
            \<and> AccountEntity.environment r = Str h)"
  using assms by (simp add: createAccount_present createADFSAccount_present)

theorem environment_alias_only_modern_witness:
  "sampleBuildClientInfo sampleClientInfo (Str ''blob'') () = Inr sampleClientInfo
   \<and> HostNameAndPort (canonicalAuthorityUrlComponents (sampleAuthority ''login.windows.net''))
       = Str ''login.windows.net''
   \<and> ''login.windows.net'' \<in> set (EnvironmentAliases sampleConstants)
   \<and> (\<exists>r. createAccount sampleConstants (sampleBuildClientInfo sampleClientInfo) (Str ''blob'')
            (Obj (sampleAuthority ''login.windows.net'')) (Obj (sampleToken (Str ''O1'') (Str ''S1'')))
            Null () = Inr r
          \<and> AccountEntity.environment r = Str ''login.microsoftonline.com'')
   \<and> (\<exists>r. createADFSAccount sampleConstants
            (Obj (sampleAuthority ''login.windows.net'')) (Obj (sampleToken (Str ''O1'') (Str ''S1'')))
            = Inr r
          \<and> AccountEntity.environment r = Str ''login.windows.net'')"
proof -
  have 1: "sampleBuildClientInfo sampleClientInfo (Str ''blob'') () = Inr sampleClientInfo"
    by (simp add: sampleBuildClientInfo_def)
  have 2: "HostNameAndPort (canonicalAuthorityUrlComponents (sampleAuthority ''login.windows.net''))
       = Str ''login.windows.net''"
    by (simp add: sampleAuthority_def)
  have 3: "''login.windows.net'' \<in> set (EnvironmentAliases sampleConstants)"
    by (simp add: sampleConstants_def)
  have 4: "PreferredCacheEnvironment sampleConstants = ''login.microsoftonline.com''"
    by (simp add: sampleConstants_def)
  from environment_alias_only_modern
         [where buildClientInfo = "sampleBuildClientInfo sampleClientInfo"
            and ci = "Str ''blob''" and crypto = "()" and cio = sampleClientInfo
            and K = sampleConstants
            and a = "sampleAuthority ''login.windows.net''" and h = "''login.windows.net''"
            and t = "sampleToken (Str ''O1'') (Str ''S1'')" and policy = Null]
       1 2 3 4
  show ?thesis by simp
qed

text \<open>
  C7. For all \<^verbatim>\<open>uid\<close> and \<^verbatim>\<open>utid\<close> decoded from the client-info blob: with
  \<^verbatim>\<open>policy = null\<close>, \<^verbatim>\<open>createAccount\<close> sets \<^verbatim>\<open>homeAccountId\<close> to uid, the client-info
  separator and utid, with no policy segment; with a policy string \<open>p\<close> it appends the
  cache-key separator and \<open>p\<close>.
\<close>

theorem homeAccountId_policy_suffix:
  assumes "buildClientInfo ci crypto = Inr cio"
  shows "(\<exists>r. createAccount K buildClientInfo ci (Obj a) (Obj t) Null crypto = Inr r
            \<and> AccountEntity.homeAccountId r
                = Str (toString_js (uid cio) @ CLIENT_INFO_SEPARATOR K @ toString_js (utid cio)))
       \<and> (\<exists>r. createAccount K buildClientInfo ci (Obj a) (Obj t) (Str p) crypto = Inr r
            \<and> AccountEntity.homeAccountId r
                = Str (toString_js (uid cio) @ CLIENT_INFO_SEPARATOR K @ toString_js (utid cio)
                        @ CACHE_KEY_SEPARATOR K @ p))"
  using assms by (simp add: createAccount_present)

theorem homeAccountId_policy_suffix_witness:
  "sampleBuildClientInfo sampleClientInfo (Str ''blob'') () = Inr sampleClientInfo
   \<and> (\<exists>r. createAccount sampleConstants (sampleBuildClientInfo sampleClientInfo) (Str ''blob'')
            (Obj (sampleAuthority ''login.windows.net'')) (Obj (sampleToken (Str ''O1'') (Str ''S1'')))
            Null () = Inr r
          \<and> AccountEntity.homeAccountId r = Str ''U1:T1'')
   \<and> (\<exists>r. createAccount sampleConstants (sampleBuildClientInfo sampleClientInfo) (Str ''blob'')
            (Obj (sampleAuthority ''login.windows.net'')) (Obj (sampleToken (Str ''O1'') (Str ''S1'')))
            (Str ''P1'') () = Inr r
          \<and> AccountEntity.homeAccountId r = Str ''U1:T1-P1'')"
proof -
  have 1: "sampleBuildClientInfo sampleClientInfo (Str ''blob'') () = Inr sampleClientInfo"
    by (simp add: sampleBuildClientInfo_def)
  from homeAccountId_policy_suffix
         [where buildClientInfo = "sampleBuildClientInfo sampleClientInfo"
            and ci = "Str ''blob''" and crypto = "()" and cio = sampleClientInfo
            and K = sampleConstants
            and a = "sampleAuthority ''login.windows.net''"
            and t = "sampleToken (Str ''O1'') (Str ''S1'')" and p = "''P1''"]
       1
  show ?thesis by (simp add: sampleConstants_def sampleClientInfo_def)
qed

text \<open>
  C8. For every decoded identity token passed to \<^verbatim>\<open>createAccount\<close>, the record's
  \<^verbatim>\<open>localAccountId\<close> is the token's \<^verbatim>\<open>oid\<close> claim when that claim is non-empty, and its
  \<^verbatim>\<open>sid\<close> claim otherwise.
\<close>

theorem localAccountId_oid_else_sid:
  assumes "buildClientInfo ci crypto = Inr cio"
  shows "\<exists>r. createAccount K buildClientInfo ci (Obj a) (Obj t) policy crypto = Inr r
            \<and> localAccountId r
                = (if isEmpty (oid (claims t)) then sid (claims t) else oid (claims t))"
  using assms by (simp add: createAccount_present)

theorem localAccountId_oid_else_sid_witness:
  "sampleBuildClientInfo sampleClientInfo (Str ''blob'') () = Inr sampleClientInfo
   \<and> (\<exists>r. createAccount sampleConstants (sampleBuildClientInfo sampleClientInfo) (Str ''blob'')
            (Obj (sampleAuthority ''login.windows.net'')) (Obj (sampleToken (Str []) (Str ''sid123'')))
            Null () = Inr r
          \<and> localAccountId r = Str ''sid123'')
   \<and> (\<exists>r. createAccount sampleConstants (sampleBuildClientInfo sampleClientInfo) (Str ''blob'')
            (Obj (sampleAuthority ''login.windows.net'')) (Obj (sampleToken (Str ''O1'') (Str ''sid123'')))
            Null () = Inr r
          \<and> localAccountId r = Str ''O1'')"
proof -
  have 1: "sampleBuildClientInfo sampleClientInfo (Str ''blob'') () = Inr sampleClientInfo"
    by (simp add: sampleBuildClientInfo_def)
  from localAccountId_oid_else_sid
         [where buildClientInfo = "sampleBuildClientInfo sampleClientInfo"
            and ci = "Str ''blob''" and crypto = "()" and cio = sampleClientInfo
            and K = sampleConstants
            and a = "sampleAuthority ''login.windows.net''"
            and t = "sampleToken (Str []) (Str ''sid123'')" and policy = Null]
       localAccountId_oid_else_sid
         [where buildClientInfo = "sampleBuildClientInfo sampleClientInfo"
            and ci = "Str ''blob''" and crypto = "()" and cio = sampleClientInfo
            and K = sampleConstants
            and a = "sampleAuthority ''login.windows.net''"
            and t = "sampleToken (Str ''O1'') (Str ''sid123'')" and policy = Null]
       1
  show ?thesis by (simp add: sampleToken_def)
qed

text \<open>
  C10. The policy guard tests \<^verbatim>\<open>policy !== null\<close> only: with \<^verbatim>\<open>policy\<close> undefined,
  \<^verbatim>\<open>createAccount\<close> still appends the cache-key separator and a policy segment, which is
  the text \<open>''undefined''\<close>.
\<close>

theorem homeAccountId_undefined_policy:
  assumes "buildClientInfo ci crypto = Inr cio"
  shows "\<exists>r. createAccount K buildClientInfo ci (Obj a) (Obj t) Undefined crypto = Inr r
            \<and> AccountEntity.homeAccountId r
                = Str (toString_js (uid cio) @ CLIENT_INFO_SEPARATOR K @ toString_js (utid cio)
                        @ CACHE_KEY_SEPARATOR K @ ''undefined'')"
  using assms by (simp add: createAccount_present)

theorem homeAccountId_undefined_policy_witness:
  "sampleBuildClientInfo sampleClientInfo (Str ''blob'') () = Inr sampleClientInfo
   \<and> (\<exists>r. createAccount sampleConstants (sampleBuildClientInfo sampleClientInfo) (Str ''blob'')
            (Obj (sampleAuthority ''login.windows.net'')) (Obj (sampleToken (Str ''O1'') (Str ''S1'')))
            Undefined () = Inr r
          \<and> AccountEntity.homeAccountId r = Str ''U1:T1-undefined'')"
proof -
  have 1: "sampleBuildClientInfo sampleClientInfo (Str ''blob'') () = Inr sampleClientInfo"
    by (simp add: sampleBuildClientInfo_def)
  from homeAccountId_undefined_policy
         [where buildClientInfo = "sampleBuildClientInfo sampleClientInfo"
            and ci = "Str ''blob''" and crypto = "()" and cio = sampleClientInfo
            and K = sampleConstants
            and a = "sampleAuthority ''login.windows.net''"
            and t = "sampleToken (Str ''O1'') (Str ''S1'')"]
       1
  show ?thesis by (simp add: sampleConstants_def sampleClientInfo_def)
qed

end
